theory Spec2Isabelle
  imports Main
begin

section \<open>Python string helpers used by \<^verbatim>\<open>pd_demo/pd_game.py\<close>\<close>

text \<open>
  Python strings are modelled as \<^typ>\<open>string\<close>; a character stands for the code point
  of the same number (0 to 255). \<open>isspace\<close>, \<open>strip\<close> and \<open>lower\<close> follow
  \<^verbatim>\<open>str.isspace\<close>, \<^verbatim>\<open>str.strip()\<close> and \<^verbatim>\<open>str.lower()\<close> on that range.
\<close>

definition isspace :: "char \<Rightarrow> bool" where
  "isspace c =
     (let n = (of_char c :: nat)
      in (9 \<le> n \<and> n \<le> 13) \<or> (28 \<le> n \<and> n \<le> 32) \<or> n = 133 \<or> n = 160)"

definition strip :: "string \<Rightarrow> string" where
  "strip s = rev (dropWhile isspace (rev (dropWhile isspace s)))"

definition lower_char :: "char \<Rightarrow> char" where
  "lower_char c =
     (let n = (of_char c :: nat)
      in if (65 \<le> n \<and> n \<le> 90) \<or> (192 \<le> n \<and> n \<le> 222 \<and> n \<noteq> 215)
         then char_of (n + 32) else c)"

definition lower :: "string \<Rightarrow> string" where
  "lower s = map lower_char s"

text \<open>\<^verbatim>\<open>str(n)\<close> for a non-negative integer, as the f-string of the prompt formats it.\<close>

definition digit_char :: "nat \<Rightarrow> char" where
  "digit_char d = char_of (48 + d)"

fun str_nat :: "nat \<Rightarrow> string" where
  "str_nat n = (if n < 10 then [digit_char n] else str_nat (n div 10) @ [digit_char (n mod 10)])"

declare str_nat.simps [simp del]

section \<open>Opponent strategies\<close>

text \<open>
  A move is the Python string \<^verbatim>\<open>'cooperate'\<close> or \<^verbatim>\<open>'defect'\<close>; the source keeps
  moves as plain strings and so does the model.
\<close>

type_synonym move = string

text \<open>
  The subclasses of \<^verbatim>\<open>Strategy\<close>. Their constructors take no argument, so an instance is
  determined by its class.
\<close>

datatype strategy = TitForTat | AlwaysDefect | AlwaysCooperate

fun name :: "strategy \<Rightarrow> string" where
  "name TitForTat = ''TitForTat''"
| "name AlwaysDefect = ''AlwaysDefect''"
| "name AlwaysCooperate = ''AlwaysCooperate''"

text \<open>
  \<^verbatim>\<open>get_move(self, history)\<close>: \<^verbatim>\<open>history[-1]\<close> is read only when the list is not empty.
\<close>

fun get_move :: "strategy \<Rightarrow> move list \<Rightarrow> move" where
  "get_move TitForTat history = (if history = [] then ''cooperate'' else last history)"
| "get_move AlwaysDefect history = ''defect''"
| "get_move AlwaysCooperate history = ''cooperate''"

text \<open>The module-level registry \<^verbatim>\<open>STRATEGIES\<close>; \<open>STRATEGIES k\<close> is \<^verbatim>\<open>STRATEGIES.get(k)\<close>.\<close>

definition STRATEGIES :: "string \<rightharpoonup> strategy" where
  "STRATEGIES =
     [''TitForTat'' \<mapsto> TitForTat, ''AlwaysDefect'' \<mapsto> AlwaysDefect,
      ''AlwaysCooperate'' \<mapsto> AlwaysCooperate]"

section \<open>The LLM player\<close>

text \<open>
  The prompt of \<^verbatim>\<open>get_llm_move\<close>. \<open>recent_rounds\<close> is the loop over
  \<^verbatim>\<open>enumerate(history[-5:])\<close> with the round number the source computes for each row.
\<close>

definition last5 :: "'a list \<Rightarrow> 'a list" where
  "last5 history = drop (length history - 5) history"

definition recent_rounds :: "(move \<times> move) list \<Rightarrow> (nat \<times> move \<times> move) list" where
  "recent_rounds history =
     map (\<lambda>(i, (my_move, opp_move)).
            (length history - length (last5 history) + i + 1, my_move, opp_move))
         (enumerate 0 (last5 history))"

definition round_line :: "nat \<times> move \<times> move \<Rightarrow> string" where
  "round_line r =
     (case r of (round_num, my_move, opp_move) \<Rightarrow>
        ''Round '' @ str_nat round_num @ '': You '' @ my_move @ '', Opponent '' @ opp_move
        @ [CHR 0x0A])"

definition build_prompt :: "(move \<times> move) list \<Rightarrow> string" where
  "build_prompt history =
     ''You are playing the Prisoner'' @ [CHR 0x27]
       @ ''s Dilemma game. For each round, both players choose to either cooperate or defect.''
       @ [CHR 0x0A, CHR 0x0A]
     @ ''Scoring:'' @ [CHR 0x0A]
     @ ''- Both cooperate: 3 points each'' @ [CHR 0x0A]
     @ ''- Both defect: 1 point each'' @ [CHR 0x0A]
     @ ''- One defects, one cooperates: Defector gets 5, Cooperator gets 0''
       @ [CHR 0x0A, CHR 0x0A]
     @ (if history \<noteq> []
        then ''Recent moves:'' @ [CHR 0x0A] @ concat (map round_line (recent_rounds history))
        else [])
     @ [CHR 0x0A]
     @ ''What is your next move? Answer with exactly one word: cooperate or defect''"

text \<open>
  The call \<^verbatim>\<open>openai.ChatCompletion.create(...)\<close> followed by
  \<^verbatim>\<open>response.choices[0].message.content\<close> is the outside world: a function from the prompt
  to either an exception raised inside the \<^verbatim>\<open>try\<close> block (\<open>Inl\<close>, with its message) or the
  text of the reply (\<open>Inr\<close>). The model name and the temperature are fixed for a game and
  are part of that function.
\<close>

type_synonym llm_api = "string \<Rightarrow> string + string"

definition get_llm_move :: "llm_api \<Rightarrow> (move \<times> move) list \<Rightarrow> move" where
  "get_llm_move api history =
     (case api (build_prompt history) of
        Inr content \<Rightarrow>
          (let move = lower (strip content)
           in if move \<notin> set [''cooperate'', ''defect''] then ''cooperate'' else move)
      | Inl e \<Rightarrow> ''cooperate'')"

section \<open>Playing a match\<close>

text \<open>The dictionary \<^verbatim>\<open>scores\<close> has the two fixed keys \<^verbatim>\<open>'llm'\<close> and \<^verbatim>\<open>'strategy'\<close>.\<close>

record scores =
  llm :: int
  strategy :: int

text \<open>The \<^verbatim>\<open>if\<close>/\<^verbatim>\<open>elif\<close> chain of \<^verbatim>\<open>play_match\<close> that adds the payoff of one round.\<close>

definition add_scores :: "move \<Rightarrow> move \<Rightarrow> scores \<Rightarrow> scores" where
  "add_scores llm_move strategy_move sc =
     (if llm_move = strategy_move \<and> strategy_move = ''cooperate''
      then sc\<lparr>llm := llm sc + 3, strategy := strategy sc + 3\<rparr>
      else if llm_move = strategy_move \<and> strategy_move = ''defect''
      then sc\<lparr>llm := llm sc + 1, strategy := strategy sc + 1\<rparr>
      else if llm_move = ''cooperate''
      then sc\<lparr>strategy := strategy sc + 5\<rparr>
      else sc\<lparr>llm := llm sc + 5\<rparr>)"

text \<open>One pass through the body of the \<^verbatim>\<open>for\<close> loop, on the pair (history, scores).\<close>

definition play_turn ::
  "llm_api \<Rightarrow> strategy \<Rightarrow> (move \<times> move) list \<times> scores \<Rightarrow> (move \<times> move) list \<times> scores" where
  "play_turn api strat st =
     (case st of (history, sc) \<Rightarrow>
        (let llm_move = get_llm_move api history;
             strategy_move = get_move strat (map fst history)
         in (history @ [(llm_move, strategy_move)], add_scores llm_move strategy_move sc)))"

text \<open>\<^verbatim>\<open>for turn in range(turns)\<close>: the body runs \<open>n\<close> times.\<close>

fun play_turns ::
  "llm_api \<Rightarrow> strategy \<Rightarrow> nat \<Rightarrow> (move \<times> move) list \<times> scores \<Rightarrow> (move \<times> move) list \<times> scores" where
  "play_turns api strat 0 st = st"
| "play_turns api strat (Suc n) st = play_turns api strat n (play_turn api strat st)"

datatype exn = ValueError string

text \<open>
  The dictionary returned by \<^verbatim>\<open>play_match\<close>; its keys \<^verbatim>\<open>'scores'\<close>, \<^verbatim>\<open>'history'\<close>,
  \<^verbatim>\<open>'strategy'\<close> and \<^verbatim>\<open>'turns'\<close> carry the prefix \<open>res_\<close> here.
\<close>

record match_result =
  res_scores :: scores
  res_history :: "(move \<times> move) list"
  res_strategy :: string
  res_turns :: int

text \<open>
  \<^verbatim>\<open>play_match(self, strategy_name, turns)\<close>. The \<^verbatim>\<open>ValueError\<close> raised for a missing
  registry entry is caught by the enclosing \<^verbatim>\<open>except Exception\<close> and raised again with the
  prefix \<^verbatim>\<open>Error creating strategy: \<close>. \<^verbatim>\<open>range(turns)\<close> is empty for \<^verbatim>\<open>turns <= 0\<close>, which
  is what \<open>nat turns\<close> gives.
\<close>

definition play_match :: "llm_api \<Rightarrow> string \<Rightarrow> int \<Rightarrow> exn + match_result" where
  "play_match api strategy_name turns =
     (case STRATEGIES strategy_name of
        None \<Rightarrow>
          Inl (ValueError (''Error creating strategy: ''
                 @ ''Strategy '' @ [CHR 0x27] @ strategy_name @ [CHR 0x27] @ '' not found''))
      | Some strat \<Rightarrow>
          (case play_turns api strat (nat turns) ([], \<lparr>llm = 0, strategy = 0\<rparr>) of
             (history, sc) \<Rightarrow>
               Inr \<lparr>res_scores = sc, res_history = history,
                    res_strategy = strategy_name, res_turns = turns\<rparr>))"

text \<open>\<^verbatim>\<open>get_available_strategies()\<close>: the keys of the registry in insertion order.\<close>

definition get_available_strategies :: "string list" where
  "get_available_strategies = [''TitForTat'', ''AlwaysDefect'', ''AlwaysCooperate'']"

section \<open>The payoff matrix as the specification writes it\<close>

text \<open>
  The source has no payoff table: the payoffs are the constants of the \<^verbatim>\<open>if\<close>/\<^verbatim>\<open>elif\<close>
  chain modelled by \<open>add_scores\<close>. The specification gives the matrix as a literal mapping
  from (participant decision, opponent decision) to (participant score, opponent score), and
  the aggregate of a history as the sum over its rounds; both are written down here to be
  compared with what the source computes.
\<close>

definition literal_matrix :: "move \<times> move \<rightharpoonup> int \<times> int" where
  "literal_matrix =
     [(''cooperate'', ''cooperate'') \<mapsto> (3, 3), (''cooperate'', ''defect'') \<mapsto> (0, 5),
      (''defect'', ''cooperate'') \<mapsto> (5, 0), (''defect'', ''defect'') \<mapsto> (1, 1)]"

fun total_payoff :: "(move \<times> move) list \<Rightarrow> (int \<times> int) option" where
  "total_payoff [] = Some (0, 0)"
| "total_payoff (m # ms) =
     (case literal_matrix m of
        None \<Rightarrow> None
      | Some (p, q) \<Rightarrow>
          (case total_payoff ms of None \<Rightarrow> None | Some (ps, qs) \<Rightarrow> Some (p + ps, q + qs)))"

section \<open>The session state machine of the specification\<close>

text \<open>
  The specification describes a session state machine (\<open>start\<close>, \<open>submit_decision\<close>, the
  round processor and the record store). The module that implements it,
  \<^verbatim>\<open>app/experiments/prisoners_dilemma.py\<close> with \<^verbatim>\<open>process_decision\<close> and
  \<^verbatim>\<open>calculate_payoff\<close>, is not among the source files: only its tests are
  (\<^verbatim>\<open>tests/test_prisoners_dilemma.py\<close>). The definitions of this section are therefore
  written from the words of the specification, sections 3, 4 and 6.
\<close>

text \<open>Modelled from the spec: a decision, one of \<open>cooperate\<close> and \<open>defect\<close> (the missing
  module's decision values).\<close>

datatype decision = Cooperate | Defect

text \<open>Modelled from the spec: the error kinds of the missing state machine that concern a
  session (section 7).\<close>

datatype session_error = InvalidDecision | UnknownStrategy | SessionAlreadyComplete | AlreadyStarted

text \<open>Modelled from the spec: the variants of the missing opponent policy (section 4.2).\<close>

datatype opponent_policy = PolicyAlwaysCooperate | PolicyAlwaysDefect | PolicyTitForTat

text \<open>Modelled from the spec: the experiment configuration read by the missing module: total
  round count, payoff matrix with all four ordered pairs, strategy identifier and the
  opponent's initial decision (sections 3 and 6).\<close>

record experiment_config =
  total_rounds :: int
  payoff_matrix :: "decision \<times> decision \<Rightarrow> int \<times> int"
  opponent_strategy :: string
  opponent_initial :: decision

text \<open>Modelled from the spec: the round record of the missing module (section 3).\<close>

record round_record =
  round_number :: int
  participant_decision :: decision
  opponent_decision :: decision
  participant_score :: int
  opponent_score :: int

text \<open>Modelled from the spec: the result record of the missing module, the aggregate scores
  and the full ordered history (section 3).\<close>

record result_record =
  participant_total :: int
  opponent_total :: int
  rounds :: "round_record list"

text \<open>Modelled from the spec: the session state of the missing module: current round number,
  round history, last opponent decision and completion flag (section 3). A state exists from
  \<open>start\<close> on, so the flag tells \<open>InProgress\<close> from \<open>Completed\<close>.\<close>

record session_state =
  current_round :: int
  round_history :: "round_record list"
  last_opponent_decision :: "decision option"
  completed :: bool

text \<open>Modelled from the spec: the calls the missing module makes on the record store
  (section 6); the store is the list of the calls made so far. Session, participant and
  experiment identifiers and the timestamp are left out.\<close>

datatype store_call =
  Append_round round_record
| Persist_result result_record
| Mark_participant_complete

text \<open>Modelled from the spec: the validation of an input decision against the enumerated
  set, missing with the module (sections 4.1 and 4.3).\<close>

definition parse_decision :: "string \<Rightarrow> decision option" where
  "parse_decision input =
     (if input = ''cooperate'' then Some Cooperate
      else if input = ''defect'' then Some Defect
      else None)"

text \<open>Modelled from the spec: the missing payoff evaluator \<open>payoff\<close> (\<^verbatim>\<open>calculate_payoff\<close>); the
  lookup key is the ordered pair as given, participant first (section 4.1).\<close>

definition payoff :: "decision \<Rightarrow> decision \<Rightarrow> (decision \<times> decision \<Rightarrow> int \<times> int) \<Rightarrow> int \<times> int" where
  "payoff participant opponent matrix = matrix (participant, opponent)"

text \<open>Modelled from the spec: \<open>get_move\<close> of the missing opponent policy on the history of the
  participant's decisions; for TitForTat an empty history gives the configured
  \<open>opponent_initial\<close> (sections 4.2 and 4.3).\<close>

fun policy_move :: "opponent_policy \<Rightarrow> decision \<Rightarrow> decision list \<Rightarrow> decision" where
  "policy_move PolicyAlwaysCooperate initial hist = Cooperate"
| "policy_move PolicyAlwaysDefect initial hist = Defect"
| "policy_move PolicyTitForTat initial hist = (if hist = [] then initial else last hist)"

text \<open>Modelled from the spec: \<open>start\<close> of the missing state machine (section 4.4). The registry
  of policies, from identifier to variant, is a parameter; \<open>None\<close> is a session that has not
  been started. An unknown identifier fails here, at session start.\<close>

definition start ::
  "(string \<rightharpoonup> opponent_policy) \<Rightarrow> experiment_config \<Rightarrow> session_state option
     \<Rightarrow> session_error + opponent_policy \<times> session_state" where
  "start registry config session =
     (case session of
        Some st \<Rightarrow> Inl AlreadyStarted
      | None \<Rightarrow>
          (case registry (opponent_strategy config) of
             None \<Rightarrow> Inl UnknownStrategy
           | Some policy \<Rightarrow>
               Inr (policy, \<lparr>current_round = 1, round_history = [],
                             last_opponent_decision = None, completed = False\<rparr>)))"

text \<open>Modelled from the spec: \<open>process_round\<close> of the missing round processor (section 4.3):
  the two validations in the order given, the opponent's decision, the payoffs, and the
  record appended to the history. The round counter is advanced by \<open>submit_decision\<close>, once,
  as section 4.4 states it.\<close>

definition process_round ::
  "session_state \<Rightarrow> experiment_config \<Rightarrow> opponent_policy \<Rightarrow> string
     \<Rightarrow> session_error + round_record \<times> session_state" where
  "process_round st config policy input =
     (if completed st then Inl SessionAlreadyComplete
      else case parse_decision input of
        None \<Rightarrow> Inl InvalidDecision
      | Some d \<Rightarrow>
          (let opp = policy_move policy (opponent_initial config)
                       (map participant_decision (round_history st));
               sc = payoff d opp (payoff_matrix config);
               rec = \<lparr>round_number = current_round st, participant_decision = d,
                      opponent_decision = opp, participant_score = fst sc,
                      opponent_score = snd sc\<rparr>
           in Inr (rec, st\<lparr>round_history := round_history st @ [rec],
                          last_opponent_decision := Some opp\<rparr>)))"

text \<open>Modelled from the spec: the result record synthesised by the missing module at
  completion: aggregate scores as sums over all round records per side, and the full ordered
  history (section 4.4).\<close>

definition synthesize_result :: "round_record list \<Rightarrow> result_record" where
  "synthesize_result rs =
     \<lparr>participant_total = sum_list (map participant_score rs),
      opponent_total = sum_list (map opponent_score rs),
      rounds = rs\<rparr>"

text \<open>Modelled from the spec: \<open>submit_decision\<close> of the missing state machine (section 4.4),
  on the session state and the record store. It returns the round record with the completion
  flag, or the error, and the state and store after the call. The specification names the
  cases round number < total_rounds and round number = total_rounds; in the remaining case
  neither transition applies and the model makes none.\<close>

definition submit_decision ::
  "experiment_config \<Rightarrow> opponent_policy \<Rightarrow> string \<Rightarrow> session_state \<times> store_call list
     \<Rightarrow> (session_error + round_record \<times> bool) \<times> session_state \<times> store_call list" where
  "submit_decision config policy input s =
     (case s of (st, store) \<Rightarrow>
        (case process_round st config policy input of
           Inl e \<Rightarrow> (Inl e, st, store)
         | Inr (rec, st1) \<Rightarrow>
             (let store1 = store @ [Append_round rec]
              in if current_round st < total_rounds config
                 then (Inr (rec, False), st1\<lparr>current_round := current_round st + 1\<rparr>, store1)
                 else if current_round st = total_rounds config
                 then (Inr (rec, True), st1\<lparr>completed := True\<rparr>,
                       store1 @ [Persist_result (synthesize_result (round_history st1)),
                                 Mark_participant_complete])
                 else (Inr (rec, False), st1, store1))))"

text \<open>Modelled from the spec: a participant submitting one input after the other to the
  missing state machine; the answers of the calls are collected in order, with the state and
  the store after the last call.\<close>

fun submit_all ::
  "experiment_config \<Rightarrow> opponent_policy \<Rightarrow> string list \<Rightarrow> session_state \<times> store_call list
     \<Rightarrow> (session_error + round_record \<times> bool) list \<times> session_state \<times> store_call list" where
  "submit_all config policy [] s = ([], s)"
| "submit_all config policy (input # inputs) s =
     (case submit_decision config policy input s of
        (res, s1) \<Rightarrow>
          (case submit_all config policy inputs s1 of (ress, s2) \<Rightarrow> (res # ress, s2)))"

text \<open>Modelled from the spec: the number of \<open>persist_result\<close> calls the missing module has
  made on the store.\<close>

fun is_persist_result :: "store_call \<Rightarrow> bool" where
  "is_persist_result (Persist_result r) = True"
| "is_persist_result c = False"

definition persist_result_calls :: "store_call list \<Rightarrow> nat" where
  "persist_result_calls store = length (filter is_persist_result store)"

text \<open>
  The states that a session of \<open>N\<close> rounds passes through, with the store that goes with
  them: the records played so far are numbered from 1 without a gap, the counter is the
  number of the round to play (of the last round once the session is completed), and the
  store holds one \<open>persist_result\<close> call exactly when the session is completed. It is the
  invariant of the proofs about \<open>submit_decision\<close>.
\<close>

definition session_invariant :: "int \<Rightarrow> session_state \<Rightarrow> store_call list \<Rightarrow> bool" where
  "session_invariant N st store =
     (map round_number (round_history st) =
        [1 .. (if completed st then current_round st else current_round st - 1)]
      \<and> 1 \<le> current_round st
      \<and> (if completed st then current_round st = N else current_round st \<le> N)
      \<and> persist_result_calls store = (if completed st then 1 else 0))"

section \<open>Properties of the moves\<close>

lemma get_llm_move_range: "get_llm_move api h \<in> {''cooperate'', ''defect''}"
  by (auto simp: get_llm_move_def Let_def split: sum.splits)

lemma get_move_range:
  "set hs \<subseteq> {''cooperate'', ''defect''} \<Longrightarrow> get_move strat hs \<in> {''cooperate'', ''defect''}"
proof (cases strat)
  case TitForTat
  assume sub: "set hs \<subseteq> {''cooperate'', ''defect''}"
  show ?thesis
  proof (cases "hs = []")
    case True
    with TitForTat show ?thesis by simp
  next
    case False
    then have "last hs \<in> set hs" by simp
    with sub have "last hs \<in> {''cooperate'', ''defect''}" by blast
    moreover have "get_move strat hs = last hs" using TitForTat False by simp
    ultimately show ?thesis by (simp only:)
  qed
qed simp_all

section \<open>The payoff of one round\<close>

lemma add_scores_literal:
  "add_scores ''cooperate'' ''cooperate'' sc = sc\<lparr>llm := llm sc + 3, strategy := strategy sc + 3\<rparr>"
  "add_scores ''cooperate'' ''defect'' sc = sc\<lparr>llm := llm sc + 0, strategy := strategy sc + 5\<rparr>"
  "add_scores ''defect'' ''cooperate'' sc = sc\<lparr>llm := llm sc + 5, strategy := strategy sc + 0\<rparr>"
  "add_scores ''defect'' ''defect'' sc = sc\<lparr>llm := llm sc + 1, strategy := strategy sc + 1\<rparr>"
  by (simp_all add: add_scores_def)

lemma literal_matrix_cases:
  "literal_matrix (a, b) = Some (p, q) \<Longrightarrow>
     (a = ''cooperate'' \<and> b = ''cooperate'' \<and> p = 3 \<and> q = 3) \<or>
     (a = ''cooperate'' \<and> b = ''defect'' \<and> p = 0 \<and> q = 5) \<or>
     (a = ''defect'' \<and> b = ''cooperate'' \<and> p = 5 \<and> q = 0) \<or>
     (a = ''defect'' \<and> b = ''defect'' \<and> p = 1 \<and> q = 1)"
  by (simp add: literal_matrix_def split: if_splits)

lemma add_scores_matrix:
  assumes "literal_matrix (a, b) = Some (p, q)"
  shows "add_scores a b sc = sc\<lparr>llm := llm sc + p, strategy := strategy sc + q\<rparr>"
  using literal_matrix_cases [OF assms]
  by (elim disjE conjE) (simp_all only: add_scores_literal)

lemma literal_matrix_dom:
  "a \<in> {''cooperate'', ''defect''} \<Longrightarrow> b \<in> {''cooperate'', ''defect''} \<Longrightarrow>
   \<exists>p q. literal_matrix (a, b) = Some (p, q)"
  by (auto simp: literal_matrix_def)

lemma literal_matrix_valid:
  "literal_matrix (a, b) = Some pq \<Longrightarrow> a \<in> {''cooperate'', ''defect''}"
  using literal_matrix_cases [of a b "fst pq" "snd pq"] by auto

text \<open>
  C1. For each of the four pairs of decisions, with the LLM as the participant and the
  strategy as the opponent, the scoring step of a round adds exactly the entry of the
  literal matrix to the two running scores, (3,3), (0,5), (5,0) and (1,1), and changes
  nothing else of the scores. The step is a function of the two moves and the scores it
  is given.
\<close>

theorem payoff_per_round:
  "add_scores ''cooperate'' ''cooperate'' sc = sc\<lparr>llm := llm sc + 3, strategy := strategy sc + 3\<rparr>
   \<and> add_scores ''cooperate'' ''defect'' sc = sc\<lparr>llm := llm sc + 0, strategy := strategy sc + 5\<rparr>
   \<and> add_scores ''defect'' ''cooperate'' sc = sc\<lparr>llm := llm sc + 5, strategy := strategy sc + 0\<rparr>
   \<and> add_scores ''defect'' ''defect'' sc = sc\<lparr>llm := llm sc + 1, strategy := strategy sc + 1\<rparr>
   \<and> literal_matrix (''cooperate'', ''cooperate'') = Some (3, 3)
   \<and> literal_matrix (''cooperate'', ''defect'') = Some (0, 5)
   \<and> literal_matrix (''defect'', ''cooperate'') = Some (5, 0)
   \<and> literal_matrix (''defect'', ''defect'') = Some (1, 1)"
  by (simp add: add_scores_def literal_matrix_def)

theorem payoff_per_round_witness:
  "add_scores ''cooperate'' ''defect'' \<lparr>llm = 3, strategy = 3\<rparr> = \<lparr>llm = 3, strategy = 8\<rparr>
   \<and> add_scores ''defect'' ''cooperate'' \<lparr>llm = 3, strategy = 3\<rparr> = \<lparr>llm = 8, strategy = 3\<rparr>"
  using payoff_per_round [of "\<lparr>llm = 3, strategy = 3\<rparr>"] by simp

section \<open>Aggregate scores\<close>

lemma total_payoff_snoc:
  "total_payoff (ms @ [m]) =
     (case total_payoff ms of
        None \<Rightarrow> None
      | Some (ps, qs) \<Rightarrow>
          (case literal_matrix m of None \<Rightarrow> None | Some (p, q) \<Rightarrow> Some (ps + p, qs + q)))"
  by (induction ms) (auto split: option.splits)

lemma total_payoff_valid:
  "total_payoff ms = Some t \<Longrightarrow> set (map fst ms) \<subseteq> {''cooperate'', ''defect''}"
proof (induction ms arbitrary: t)
  case Nil
  then show ?case by simp
next
  case (Cons m ms)
  obtain a b where m: "m = (a, b)" by (cases m)
  from Cons.prems obtain pq t' where 1: "literal_matrix (a, b) = Some pq"
    and 2: "total_payoff ms = Some t'"
    by (auto simp: m split: option.splits)
  from literal_matrix_valid [OF 1] Cons.IH [OF 2] show ?case by (simp add: m)
qed

lemma play_turn_total:
  assumes "total_payoff h = Some (llm sc, strategy sc)"
    and "play_turn api strat (h, sc) = (h', sc')"
  shows "total_payoff h' = Some (llm sc', strategy sc')"
proof -
  let ?a = "get_llm_move api h" and ?b = "get_move strat (map fst h)"
  have a: "?a \<in> {''cooperate'', ''defect''}" by (rule get_llm_move_range)
  have b: "?b \<in> {''cooperate'', ''defect''}"
    by (rule get_move_range) (rule total_payoff_valid [OF assms(1)])
  from literal_matrix_dom [OF a b] obtain p q where pq: "literal_matrix (?a, ?b) = Some (p, q)"
    by blast
  from assms(2) have h': "h' = h @ [(?a, ?b)]" and sc': "sc' = add_scores ?a ?b sc"
    by (simp_all add: play_turn_def Let_def)
  show ?thesis
    by (simp add: h' sc' total_payoff_snoc assms(1) pq add_scores_matrix [OF pq])
qed

lemma play_turns_total:
  "total_payoff h = Some (llm sc, strategy sc) \<Longrightarrow>
   play_turns api strat n (h, sc) = (h', sc') \<Longrightarrow>
   total_payoff h' = Some (llm sc', strategy sc')"
proof (induction n arbitrary: h sc)
  case 0
  then show ?case by simp
next
  case (Suc n)
  obtain h1 sc1 where st: "play_turn api strat (h, sc) = (h1, sc1)"
    by (cases "play_turn api strat (h, sc)")
  from Suc.prems(2) have "play_turns api strat n (h1, sc1) = (h', sc')" by (simp add: st)
  with play_turn_total [OF Suc.prems(1) st] show ?case by (rule Suc.IH)
qed

text \<open>
  C8. When \<^verbatim>\<open>play_match\<close> returns, every pair of moves of the returned history is an
  entry of the payoff matrix, and the score of each side that the loop accumulated is the
  sum of that side's payoff over the whole history in order.
\<close>

theorem match_scores_sum:
  assumes "play_match api strategy_name turns = Inr r"
  shows "total_payoff (res_history r) = Some (llm (res_scores r), strategy (res_scores r))"
proof -
  from assms obtain strat h sc where
    run: "play_turns api strat (nat turns) ([], \<lparr>llm = 0, strategy = 0\<rparr>) = (h, sc)"
    and r: "r = \<lparr>res_scores = sc, res_history = h, res_strategy = strategy_name,
                res_turns = turns\<rparr>"
    by (auto simp: play_match_def split: option.splits prod.splits)
  have "total_payoff [] = Some (llm \<lparr>llm = 0, strategy = 0\<rparr>, strategy \<lparr>llm = 0, strategy = 0\<rparr>)"
    by simp
  from play_turns_total [OF this run] show ?thesis by (simp add: r)
qed

theorem match_scores_sum_witness:
  "play_match (\<lambda>p. Inr ''defect'') ''AlwaysCooperate'' 2 =
     Inr \<lparr>res_scores = \<lparr>llm = 10, strategy = 0\<rparr>,
          res_history = [(''defect'', ''cooperate''), (''defect'', ''cooperate'')],
          res_strategy = ''AlwaysCooperate'', res_turns = 2\<rparr>
   \<and> total_payoff [(''defect'', ''cooperate''), (''defect'', ''cooperate'')] = Some (10, 0)"
proof -
  have run: "play_match (\<lambda>p. Inr ''defect'') ''AlwaysCooperate'' 2 =
     Inr \<lparr>res_scores = \<lparr>llm = 10, strategy = 0\<rparr>,
          res_history = [(''defect'', ''cooperate''), (''defect'', ''cooperate'')],
          res_strategy = ''AlwaysCooperate'', res_turns = 2\<rparr>"
    by code_simp
  from match_scores_sum [OF run] run show ?thesis by simp
qed

section \<open>The registry and the loop\<close>

lemma STRATEGIES_dom: "dom STRATEGIES = set get_available_strategies"
  by (auto simp: STRATEGIES_def get_available_strategies_def split: if_splits)

lemma play_turns_length:
  "length (fst (play_turns api strat n (h, sc))) = length h + n"
proof (induction n arbitrary: h sc)
  case 0
  then show ?case by simp
next
  case (Suc n)
  obtain h1 sc1 where st: "play_turn api strat (h, sc) = (h1, sc1)"
    by (cases "play_turn api strat (h, sc)")
  then have "length h1 = Suc (length h)" by (auto simp: play_turn_def Let_def)
  with Suc.IH [of h1 sc1] show ?case by (simp add: st)
qed

section \<open>The move of the LLM\<close>

text \<open>
  C9. Whatever the API call does, \<^verbatim>\<open>get_llm_move\<close> returns \<^verbatim>\<open>'cooperate'\<close> or
  \<^verbatim>\<open>'defect'\<close>: when the call raises it returns \<^verbatim>\<open>'cooperate'\<close>; when it answers with a
  text, the text is stripped and lower-cased and returned if it is one of the two decisions,
  and \<^verbatim>\<open>'cooperate'\<close> is returned otherwise.
\<close>

theorem get_llm_move_total:
  "get_llm_move api h \<in> {''cooperate'', ''defect''}
   \<and> (\<forall>e. api (build_prompt h) = Inl e \<longrightarrow> get_llm_move api h = ''cooperate'')
   \<and> (\<forall>content. api (build_prompt h) = Inr content \<longrightarrow>
         get_llm_move api h =
           (if lower (strip content) \<in> {''cooperate'', ''defect''} then lower (strip content)
            else ''cooperate''))"
  by (auto simp: get_llm_move_def Let_def split: sum.splits)

theorem get_llm_move_total_witness:
  "get_llm_move (\<lambda>p. Inr '' Maybe '') [] = ''cooperate''
   \<and> get_llm_move (\<lambda>p. Inl ''timeout'') [] = ''cooperate''
   \<and> get_llm_move (\<lambda>p. Inr [CHR 0x0A, CHR ''D'', CHR ''E'', CHR ''f'', CHR ''e'', CHR ''c'', CHR ''t'', CHR 0x20]) [] = ''defect''"
proof -
  have 1: "lower (strip '' Maybe '') \<notin> {''cooperate'', ''defect''}" by code_simp
  have 2: "lower (strip [CHR 0x0A, CHR ''D'', CHR ''E'', CHR ''f'', CHR ''e'', CHR ''c'', CHR ''t'', CHR 0x20]) = ''defect''"
    by code_simp
  from get_llm_move_total [of "\<lambda>p. Inr '' Maybe ''" "[]"] 1
  have "get_llm_move (\<lambda>p. Inr '' Maybe '') [] = ''cooperate''" by simp
  moreover from get_llm_move_total [of "\<lambda>p. Inl ''timeout''" "[]"]
  have "get_llm_move (\<lambda>p. Inl ''timeout'') [] = ''cooperate''" by simp
  moreover from get_llm_move_total [of "\<lambda>p. Inr [CHR 0x0A, CHR ''D'', CHR ''E'', CHR ''f'', CHR ''e'', CHR ''c'', CHR ''t'', CHR 0x20]" "[]"] 2
  have "get_llm_move (\<lambda>p. Inr [CHR 0x0A, CHR ''D'', CHR ''E'', CHR ''f'', CHR ''e'', CHR ''c'', CHR ''t'', CHR 0x20]) [] = ''defect''"
    by simp
  ultimately show ?thesis by blast
qed

section \<open>Matches without rounds\<close>

text \<open>
  C10. For \<^verbatim>\<open>turns <= 0\<close> and a registered strategy name, \<^verbatim>\<open>play_match\<close> raises nothing
  and returns an empty history and the score 0 for both sides.
\<close>

theorem play_match_no_turns:
  assumes "turns \<le> 0" and "strategy_name \<in> set get_available_strategies"
  shows "play_match api strategy_name turns =
           Inr \<lparr>res_scores = \<lparr>llm = 0, strategy = 0\<rparr>, res_history = [],
                res_strategy = strategy_name, res_turns = turns\<rparr>"
proof -
  from assms(2) obtain strat where "STRATEGIES strategy_name = Some strat"
    unfolding STRATEGIES_dom [symmetric] by blast
  moreover from assms(1) have "nat turns = 0" by simp
  ultimately show ?thesis by (simp add: play_match_def)
qed

theorem play_match_no_turns_witness:
  "(-3::int) \<le> 0 \<and> ''AlwaysDefect'' \<in> set get_available_strategies
   \<and> play_match (\<lambda>p. Inr ''defect'') ''AlwaysDefect'' (-3) =
           Inr \<lparr>res_scores = \<lparr>llm = 0, strategy = 0\<rparr>, res_history = [],
                res_strategy = ''AlwaysDefect'', res_turns = -3\<rparr>"
proof -
  have 1: "(-3::int) \<le> 0" by simp
  have 2: "''AlwaysDefect'' \<in> set get_available_strategies"
    by (simp add: get_available_strategies_def)
  from play_match_no_turns [OF 1 2, of "\<lambda>p. Inr ''defect''"] 1 2 show ?thesis by simp
qed

section \<open>Unknown strategies\<close>

text \<open>
  C6. For a strategy name that is not registered, \<^verbatim>\<open>play_match\<close> fails when the
  strategy is looked up, before the loop over the rounds: the result is the error (the
  source's \<^verbatim>\<open>ValueError\<close>, which is what the specification calls \<open>UnknownStrategy\<close>) for
  every number of turns and every behaviour of the LLM, and an error carries no round record
  and no scores. For a registered name \<^verbatim>\<open>play_match\<close> returns a result.
\<close>

theorem unknown_strategy_fails_at_start:
  "(strategy_name \<notin> set get_available_strategies \<longrightarrow>
      play_match api strategy_name turns =
        Inl (ValueError (''Error creating strategy: Strategy '' @ [CHR 0x27] @ strategy_name
               @ [CHR 0x27] @ '' not found'')))
   \<and> (strategy_name \<in> set get_available_strategies \<longrightarrow>
        (\<exists>r. play_match api strategy_name turns = Inr r))"
proof (intro conjI impI)
  assume "strategy_name \<notin> set get_available_strategies"
  then have "STRATEGIES strategy_name = None"
    unfolding STRATEGIES_dom [symmetric] by blast
  then show "play_match api strategy_name turns =
        Inl (ValueError (''Error creating strategy: Strategy '' @ [CHR 0x27] @ strategy_name
               @ [CHR 0x27] @ '' not found''))"
    by (simp add: play_match_def)
next
  assume "strategy_name \<in> set get_available_strategies"
  then obtain strat where "STRATEGIES strategy_name = Some strat"
    unfolding STRATEGIES_dom [symmetric] by blast
  then show "\<exists>r. play_match api strategy_name turns = Inr r"
    by (simp add: play_match_def split: prod.splits)
qed

theorem unknown_strategy_fails_at_start_witness:
  "''tit_for_tat'' \<notin> set get_available_strategies
   \<and> play_match (\<lambda>p. Inr ''defect'') ''tit_for_tat'' 10 =
        Inl (ValueError ''Error creating strategy: Strategy 'tit_for_tat' not found'')
   \<and> ''TitForTat'' \<in> set get_available_strategies
   \<and> (\<exists>r. play_match (\<lambda>p. Inr ''defect'') ''TitForTat'' 10 = Inr r)"
proof -
  have 1: "''tit_for_tat'' \<notin> set get_available_strategies"
    by (simp add: get_available_strategies_def)
  have 2: "''TitForTat'' \<in> set get_available_strategies"
    by (simp add: get_available_strategies_def)
  from unknown_strategy_fails_at_start [of "''tit_for_tat''" "\<lambda>p. Inr ''defect''" 10] 1
  have "play_match (\<lambda>p. Inr ''defect'') ''tit_for_tat'' 10 =
        Inl (ValueError ''Error creating strategy: Strategy 'tit_for_tat' not found'')"
    by simp
  moreover from unknown_strategy_fails_at_start [of "''TitForTat''" "\<lambda>p. Inr ''defect''" 10] 2
  have "\<exists>r. play_match (\<lambda>p. Inr ''defect'') ''TitForTat'' 10 = Inr r" by simp
  ultimately show ?thesis using 1 2 by blast
qed

section \<open>A three-round match against TitForTat\<close>

text \<open>
  C3. Against \<^verbatim>\<open>TitForTat\<close>, when the participant (the LLM) plays cooperate, defect,
  cooperate, the opponent plays cooperate, cooperate, defect; the rounds score (3,3), (5,0)
  and (0,5); the match ends after the third round with the history of the three rounds and
  the totals 8 and 8.
\<close>

theorem tit_for_tat_three_rounds:
  assumes "get_llm_move api [] = ''cooperate''"
    and "get_llm_move api [(''cooperate'', ''cooperate'')] = ''defect''"
    and "get_llm_move api [(''cooperate'', ''cooperate''), (''defect'', ''cooperate'')] = ''cooperate''"
  shows "play_turn api TitForTat ([], \<lparr>llm = 0, strategy = 0\<rparr>) =
           ([(''cooperate'', ''cooperate'')], \<lparr>llm = 0 + 3, strategy = 0 + 3\<rparr>)
    \<and> play_turn api TitForTat ([(''cooperate'', ''cooperate'')], \<lparr>llm = 3, strategy = 3\<rparr>) =
           ([(''cooperate'', ''cooperate''), (''defect'', ''cooperate'')],
            \<lparr>llm = 3 + 5, strategy = 3 + 0\<rparr>)
    \<and> play_turn api TitForTat
           ([(''cooperate'', ''cooperate''), (''defect'', ''cooperate'')], \<lparr>llm = 8, strategy = 3\<rparr>) =
           ([(''cooperate'', ''cooperate''), (''defect'', ''cooperate''), (''cooperate'', ''defect'')],
            \<lparr>llm = 8 + 0, strategy = 3 + 5\<rparr>)
    \<and> play_match api ''TitForTat'' 3 =
           Inr \<lparr>res_scores = \<lparr>llm = 8, strategy = 8\<rparr>,
                res_history = [(''cooperate'', ''cooperate''), (''defect'', ''cooperate''),
                               (''cooperate'', ''defect'')],
                res_strategy = ''TitForTat'', res_turns = 3\<rparr>"
proof -
  have 1: "play_turn api TitForTat ([], \<lparr>llm = 0, strategy = 0\<rparr>) =
           ([(''cooperate'', ''cooperate'')], \<lparr>llm = 3, strategy = 3\<rparr>)"
    by (simp add: play_turn_def Let_def assms(1) add_scores_literal)
  have 2: "play_turn api TitForTat ([(''cooperate'', ''cooperate'')], \<lparr>llm = 3, strategy = 3\<rparr>) =
           ([(''cooperate'', ''cooperate''), (''defect'', ''cooperate'')], \<lparr>llm = 8, strategy = 3\<rparr>)"
    by (simp add: play_turn_def Let_def assms(2) add_scores_literal)
  have 3: "play_turn api TitForTat
           ([(''cooperate'', ''cooperate''), (''defect'', ''cooperate'')], \<lparr>llm = 8, strategy = 3\<rparr>) =
           ([(''cooperate'', ''cooperate''), (''defect'', ''cooperate''), (''cooperate'', ''defect'')],
            \<lparr>llm = 8, strategy = 8\<rparr>)"
    by (simp add: play_turn_def Let_def assms(3) add_scores_literal)
  have s: "STRATEGIES ''TitForTat'' = Some TitForTat" by (simp add: STRATEGIES_def)
  have n: "nat 3 = Suc (Suc (Suc 0))" by simp
  have 4: "play_match api ''TitForTat'' 3 =
           Inr \<lparr>res_scores = \<lparr>llm = 8, strategy = 8\<rparr>,
                res_history = [(''cooperate'', ''cooperate''), (''defect'', ''cooperate''),
                               (''cooperate'', ''defect'')],
                res_strategy = ''TitForTat'', res_turns = 3\<rparr>"
    unfolding play_match_def s n by (simp add: 1 2 3)
  from 1 2 3 4 show ?thesis by simp
qed

theorem tit_for_tat_three_rounds_witness:
  "play_match (\<lambda>p. if p = build_prompt [(''cooperate'', ''cooperate'')] then Inr '' Defect''
                    else Inr ''cooperate'') ''TitForTat'' 3 =
           Inr \<lparr>res_scores = \<lparr>llm = 8, strategy = 8\<rparr>,
                res_history = [(''cooperate'', ''cooperate''), (''defect'', ''cooperate''),
                               (''cooperate'', ''defect'')],
                res_strategy = ''TitForTat'', res_turns = 3\<rparr>"
proof -
  let ?api = "\<lambda>p. if p = build_prompt [(''cooperate'', ''cooperate'')] then Inr '' Defect''
                    else (Inr ''cooperate'' :: string + string)"
  have 1: "get_llm_move ?api [] = ''cooperate''" by code_simp
  have 2: "get_llm_move ?api [(''cooperate'', ''cooperate'')] = ''defect''" by code_simp
  have 3: "get_llm_move ?api [(''cooperate'', ''cooperate''), (''defect'', ''cooperate'')] = ''cooperate''"
    by code_simp
  from tit_for_tat_three_rounds [OF 1 2 3] show ?thesis by blast
qed

section \<open>Sessions of the state machine\<close>

lemma parse_decision_None: "parse_decision input = None \<longleftrightarrow> input \<notin> {''cooperate'', ''defect''}"
  by (simp add: parse_decision_def)

lemma submit_decision_completed:
  "completed st \<Longrightarrow>
   submit_decision config policy input (st, store) = (Inl SessionAlreadyComplete, st, store)"
  by (simp add: submit_decision_def process_round_def)

lemma submit_decision_invalid:
  "\<not> completed st \<Longrightarrow> parse_decision input = None \<Longrightarrow>
   submit_decision config policy input (st, store) = (Inl InvalidDecision, st, store)"
  by (simp add: submit_decision_def process_round_def)

lemma session_invariant_length:
  assumes "session_invariant N st store"
  shows "int (length (round_history st)) = (if completed st then N else current_round st - 1)"
proof -
  from assms have "length (map round_number (round_history st)) =
      length [1 .. (if completed st then current_round st else current_round st - 1)]"
    and "1 \<le> current_round st" and "completed st \<longrightarrow> current_round st = N"
    by (simp_all add: session_invariant_def split: if_splits)
  then show ?thesis by (auto split: if_splits)
qed

lemma submit_decision_valid:
  assumes inv: "session_invariant (total_rounds config) st store"
    and nc: "\<not> completed st" and d: "parse_decision input = Some d"
  shows "\<exists>rec st' store'.
           submit_decision config policy input (st, store) =
             (Inr (rec, current_round st = total_rounds config), st', store')
         \<and> round_history st' = round_history st @ [rec]
         \<and> round_number rec = current_round st
         \<and> participant_decision rec = d
         \<and> opponent_decision rec =
             policy_move policy (opponent_initial config)
               (map participant_decision (round_history st))
         \<and> (participant_score rec, opponent_score rec) =
             payoff_matrix config (d, opponent_decision rec)
         \<and> (completed st' \<longleftrightarrow> current_round st = total_rounds config)
         \<and> session_invariant (total_rounds config) st' store'"
proof -
  let ?opp = "policy_move policy (opponent_initial config)
                (map participant_decision (round_history st))"
  let ?sc = "payoff d ?opp (payoff_matrix config)"
  let ?rec = "\<lparr>round_number = current_round st, participant_decision = d,
               opponent_decision = ?opp, participant_score = fst ?sc,
               opponent_score = snd ?sc\<rparr>"
  let ?st1 = "st\<lparr>round_history := round_history st @ [?rec],
                 last_opponent_decision := Some ?opp\<rparr>"
  have pr: "process_round st config policy input = Inr (?rec, ?st1)"
    using nc d by (simp add: process_round_def Let_def)
  from inv nc have nums: "map round_number (round_history st) = [1 .. current_round st - 1]"
    and c1: "1 \<le> current_round st" and cN: "current_round st \<le> total_rounds config"
    and p0: "persist_result_calls store = 0"
    by (simp_all add: session_invariant_def)
  from c1 have up: "[1 .. current_round st] = [1 .. current_round st - 1] @ [current_round st]"
    by (simp add: upto_rec2)
  show ?thesis
  proof (cases "current_round st < total_rounds config")
    case True
    let ?st' = "?st1\<lparr>current_round := current_round st + 1\<rparr>"
    have "submit_decision config policy input (st, store) =
            (Inr (?rec, False), ?st', store @ [Append_round ?rec])"
      using True by (simp add: submit_decision_def pr Let_def)
    moreover have "session_invariant (total_rounds config) ?st' (store @ [Append_round ?rec])"
      using True nc c1 p0 nums up
      by (simp add: session_invariant_def persist_result_calls_def)
    ultimately show ?thesis using True nc by (simp add: payoff_def)
  next
    case False
    with cN have eq: "current_round st = total_rounds config" by simp
    let ?st' = "?st1\<lparr>completed := True\<rparr>"
    let ?store' = "store @ [Append_round ?rec]
                   @ [Persist_result (synthesize_result (round_history ?st1)),
                      Mark_participant_complete]"
    have "submit_decision config policy input (st, store) = (Inr (?rec, True), ?st', ?store')"
      using eq by (simp add: submit_decision_def pr Let_def)
    moreover have "session_invariant (total_rounds config) ?st' ?store'"
      using eq c1 p0 nums up
      by (simp add: session_invariant_def persist_result_calls_def)
    ultimately show ?thesis using eq by (simp add: payoff_def)
  qed
qed

lemma start_invariant:
  assumes "start registry config None = Inr (policy, st0)" and "1 \<le> total_rounds config"
  shows "session_invariant (total_rounds config) st0 []" and "round_history st0 = []"
    and "\<not> completed st0" and "registry (opponent_strategy config) = Some policy"
  using assms
  by (auto simp: start_def session_invariant_def persist_result_calls_def split: option.splits)


lemma submit_all_trace:
  "session_invariant (total_rounds config) st store \<Longrightarrow>
   submit_all config policy ds (st, store) = (ress, st', store') \<Longrightarrow>
   session_invariant (total_rounds config) st' store'
   \<and> int (length (round_history st')) =
       min (int (length (round_history st))
              + int (length (filter (\<lambda>i. parse_decision i \<noteq> None) ds)))
           (total_rounds config)
   \<and> length (filter (\<lambda>r. \<not> isl r) ress) + length (round_history st) =
       length (round_history st')
   \<and> length ress = length ds"
proof (induction ds arbitrary: st store ress)
  case Nil
  from session_invariant_length [OF Nil.prems(1)] Nil.prems
  show ?case by (auto simp: session_invariant_def split: if_splits)
next
  case (Cons input ds)
  let ?N = "total_rounds config"
  obtain res st1 store1 where
    step: "submit_decision config policy input (st, store) = (res, st1, store1)"
    by (cases "submit_decision config policy input (st, store)")
  obtain ress1 where
    rest: "submit_all config policy ds (st1, store1) = (ress1, st', store')"
    and ress: "ress = res # ress1"
    using Cons.prems(2) by (auto simp: step split: prod.splits)
  note len = session_invariant_length [OF Cons.prems(1)]
  consider (finished) "completed st"
    | (invalid) "\<not> completed st" "parse_decision input = None"
    | (valid) d where "\<not> completed st" "parse_decision input = Some d"
    by (cases "parse_decision input") auto
  then show ?case
  proof cases
    case finished
    from step submit_decision_completed [OF finished, of config policy input store]
    have same: "res = Inl SessionAlreadyComplete" "st1 = st" "store1 = store" by simp_all
    from Cons.IH [OF Cons.prems(1) rest [unfolded same]] len finished
    show ?thesis by (auto simp: ress same)
  next
    case invalid
    from step submit_decision_invalid [OF invalid, of config policy store]
    have same: "res = Inl InvalidDecision" "st1 = st" "store1 = store" by simp_all
    from Cons.IH [OF Cons.prems(1) rest [unfolded same]] invalid
    show ?thesis by (auto simp: ress same)
  next
    case valid
    from submit_decision_valid [OF Cons.prems(1) valid, of policy] step
    obtain rec where res: "res = Inr (rec, current_round st = ?N)"
      and h1: "round_history st1 = round_history st @ [rec]"
      and inv1: "session_invariant ?N st1 store1"
      by auto
    from len valid(1) Cons.prems(1)
    have lt: "int (length (round_history st)) < ?N"
      by (simp add: session_invariant_def)
    from Cons.IH [OF inv1 rest] lt valid(2)
    show ?thesis by (auto simp: ress res h1)
  qed
qed



lemma filter_valid_inputs:
  "filter (\<lambda>i. parse_decision i \<noteq> None) ds = filter (\<lambda>i. i \<in> {''cooperate'', ''defect''}) ds"
  by (rule filter_cong) (simp_all add: parse_decision_None)

section \<open>Submissions after completion\<close>



section \<open>Inputs that are not a decision\<close>

text \<open>
  C5. In the state machine of the specification, an input outside \<open>cooperate\<close> and
  \<open>defect\<close>, such as \<^verbatim>\<open>maybe\<close>, submitted to a session in progress fails with
  \<open>InvalidDecision\<close>. Whatever the state of the session, the call fails and returns the
  session state (round counter and history) and the store unchanged. (On a completed session
  the error is \<open>SessionAlreadyComplete\<close>, the first of the two validations.)
\<close>

theorem invalid_decision_rejected:
  assumes "input \<notin> {''cooperate'', ''defect''}"
  shows "(\<not> completed st \<longrightarrow>
            submit_decision config policy input (st, store) = (Inl InvalidDecision, st, store))
    \<and> isl (fst (submit_decision config policy input (st, store)))
    \<and> snd (submit_decision config policy input (st, store)) = (st, store)"
proof (cases "completed st")
  case True
  then show ?thesis by (simp add: submit_decision_completed)
next
  case False
  moreover from assms have "parse_decision input = None" by (simp add: parse_decision_None)
  ultimately show ?thesis by (simp add: submit_decision_invalid)
qed

theorem invalid_decision_rejected_witness:
  "''maybe'' \<notin> {''cooperate'', ''defect''}
   \<and> submit_decision
       \<lparr>total_rounds = 3,
        payoff_matrix = (\<lambda>k. if k = (Cooperate, Cooperate) then (3, 3)
                             else if k = (Cooperate, Defect) then (0, 5)
                             else if k = (Defect, Cooperate) then (5, 0) else (1, 1)),
        opponent_strategy = ''tit_for_tat'', opponent_initial = Cooperate\<rparr>
       PolicyTitForTat ''maybe''
       (\<lparr>current_round = 2, round_history = [], last_opponent_decision = None,
         completed = False\<rparr>, []) =
     (Inl InvalidDecision,
      \<lparr>current_round = 2, round_history = [], last_opponent_decision = None,
       completed = False\<rparr>, [])"
  (is "?bad \<and> submit_decision ?cfg ?pol ?inp (?st, ?store) = _")
proof -
  have bad: ?bad by simp
  have nc: "\<not> completed ?st" by simp
  from invalid_decision_rejected [OF bad, of ?st ?cfg ?pol ?store] nc
  have "submit_decision ?cfg ?pol ?inp (?st, ?store) = (Inl InvalidDecision, ?st, ?store)"
    by blast
  with bad show ?thesis by blast
qed

section \<open>Length of the history and round numbers\<close>

lemma play_turn_in_order:
  assumes "\<forall>k<length h. h ! k = (get_llm_move api (take k h), get_move strat (map fst (take k h)))"
    and "play_turn api strat (h, sc) = (h', sc')"
  shows "\<forall>k<length h'. h' ! k = (get_llm_move api (take k h'), get_move strat (map fst (take k h')))"
proof (intro allI impI)
  fix k
  assume k: "k < length h'"
  from assms(2) have h': "h' = h @ [(get_llm_move api h, get_move strat (map fst h))]"
    by (simp add: play_turn_def Let_def)
  show "h' ! k = (get_llm_move api (take k h'), get_move strat (map fst (take k h')))"
  proof (cases "k < length h")
    case True
    with assms(1) show ?thesis by (simp add: h' nth_append)
  next
    case False
    with k have "k = length h" by (simp add: h')
    then show ?thesis by (simp add: h')
  qed
qed

lemma play_turns_in_order:
  "\<forall>k<length h. h ! k = (get_llm_move api (take k h), get_move strat (map fst (take k h))) \<Longrightarrow>
   play_turns api strat n (h, sc) = (h', sc') \<Longrightarrow>
   \<forall>k<length h'. h' ! k = (get_llm_move api (take k h'), get_move strat (map fst (take k h')))"
proof (induction n arbitrary: h sc)
  case 0
  then show ?case by simp
next
  case (Suc n)
  obtain h1 sc1 where st: "play_turn api strat (h, sc) = (h1, sc1)"
    by (cases "play_turn api strat (h, sc)")
  from Suc.prems(2) have "play_turns api strat n (h1, sc1) = (h', sc')" by (simp add: st)
  with play_turn_in_order [OF Suc.prems(1) st] show ?case by (rule Suc.IH)
qed

lemma play_match_rounds:
  assumes "STRATEGIES strategy_name = Some strat"
    and "play_match api strategy_name (int N) = Inr r"
  shows "length (res_history r) = N"
    and "\<forall>k<N. res_history r ! k =
           (get_llm_move api (take k (res_history r)),
            get_move strat (map fst (take k (res_history r))))"
proof -
  from assms obtain h sc where
    run: "play_turns api strat N ([], \<lparr>llm = 0, strategy = 0\<rparr>) = (h, sc)"
    and res: "res_history r = h"
    by (auto simp: play_match_def split: prod.splits)
  from play_turns_length [of api strat N "[]" "\<lparr>llm = 0, strategy = 0\<rparr>"] run
  show len: "length (res_history r) = N" by (simp add: res)
  have "\<forall>k<length ([] :: (move \<times> move) list).
          [] ! k = (get_llm_move api (take k []), get_move strat (map fst (take k [])))"
    by simp
  from play_turns_in_order [OF this run] len res
  show "\<forall>k<N. res_history r ! k =
           (get_llm_move api (take k (res_history r)),
            get_move strat (map fst (take k (res_history r))))"
    by simp
qed

lemma session_round_numbers:
  assumes "start registry config None = Inr (policy, st0)"
    and "set inputs \<subseteq> {''cooperate'', ''defect''}"
    and "int (length inputs) \<le> total_rounds config"
    and "submit_all config policy inputs (st0, []) = (ress, st, store)"
  shows "list_all (\<lambda>r. \<not> isl r) ress"
    and "length (round_history st) = length inputs"
    and "map round_number (round_history st) = [1 .. int (length inputs)]"
proof -
  have goal: "list_all (\<lambda>r. \<not> isl r) ress \<and> length (round_history st) = length inputs
      \<and> map round_number (round_history st) = [1 .. int (length inputs)]"
  proof (cases "inputs = []")
    case True
    with assms(1,4) show ?thesis by (auto simp: start_def split: option.splits)
  next
    case False
    with assms(3) have N: "1 \<le> total_rounds config" by (cases inputs) auto
    note init = start_invariant [OF assms(1) N]
    from assms(2) have all: "filter (\<lambda>i. i \<in> {''cooperate'', ''defect''}) inputs = inputs"
      by (auto simp: filter_id_conv)
    note trace = submit_all_trace [OF init(1) assms(4),
        unfolded init(2) filter_valid_inputs all]
    from trace have inv: "session_invariant (total_rounds config) st store" by (rule conjunct1)
    from trace assms(3) have len: "length (round_history st) = length inputs" by simp
    from trace len have "length (filter (\<lambda>r. \<not> isl r) ress) = length ress" by simp
    then have ok: "list_all (\<lambda>r. \<not> isl r) ress"
      using sum_length_filter_compl [of "\<lambda>r. \<not> isl r" ress]
      by (simp add: list_all_iff filter_empty_conv)
    from inv session_invariant_length [OF inv] len
    have "map round_number (round_history st) = [1 .. int (length inputs)]"
      by (auto simp: session_invariant_def split: if_splits)
    with ok len show ?thesis by blast
  qed
  from goal show "list_all (\<lambda>r. \<not> isl r) ress" by blast
  from goal show "length (round_history st) = length inputs" by blast
  from goal show "map round_number (round_history st) = [1 .. int (length inputs)]" by blast
qed

text \<open>
  C7. In the state machine of the specification, submitting \<open>n\<close> decisions to a session
  started on a configuration of at least \<open>n\<close> rounds succeeds \<open>n\<close> times, and leaves a
  history of exactly \<open>n\<close> records whose round numbers are 1, 2, ..., \<open>n\<close> in this order,
  strictly increasing. In \<^verbatim>\<open>play_match\<close> of \<^verbatim>\<open>pd_game.py\<close>, whose records hold no round
  number, a match of \<open>N\<close> turns returns a history of exactly \<open>N\<close> records, and the record
  at position \<open>k\<close> (from 0) is the pair of moves made on the history of the \<open>k\<close> rounds
  before it: the records stand in the order in which the rounds were played.
\<close>

theorem history_length_and_round_numbers:
  "(start registry config None = Inr (policy, st0) \<longrightarrow>
    set inputs \<subseteq> {''cooperate'', ''defect''} \<longrightarrow>
    int (length inputs) \<le> total_rounds config \<longrightarrow>
    submit_all config policy inputs (st0, []) = (ress, st, store) \<longrightarrow>
      list_all (\<lambda>r. \<not> isl r) ress
      \<and> length (round_history st) = length inputs
      \<and> map round_number (round_history st) = [1 .. int (length inputs)]
      \<and> sorted_wrt (<) (map round_number (round_history st)))
   \<and> (STRATEGIES strategy_name = Some strat \<longrightarrow>
      play_match api strategy_name (int N) = Inr r \<longrightarrow>
        length (res_history r) = N
        \<and> (\<forall>k<N. res_history r ! k =
              (get_llm_move api (take k (res_history r)),
               get_move strat (map fst (take k (res_history r))))))"
proof (intro conjI impI)
  assume a: "start registry config None = Inr (policy, st0)"
    "set inputs \<subseteq> {''cooperate'', ''defect''}"
    "int (length inputs) \<le> total_rounds config"
    "submit_all config policy inputs (st0, []) = (ress, st, store)"
  note s = session_round_numbers [OF a]
  show "list_all (\<lambda>r. \<not> isl r) ress" by (rule s(1))
  show "length (round_history st) = length inputs" by (rule s(2))
  show "map round_number (round_history st) = [1 .. int (length inputs)]" by (rule s(3))
  show "sorted_wrt (<) (map round_number (round_history st))"
    unfolding s(3) by (rule sorted_wrt_upto)
next
  assume b: "STRATEGIES strategy_name = Some strat"
    "play_match api strategy_name (int N) = Inr r"
  show "length (res_history r) = N" by (rule play_match_rounds(1) [OF b])
  show "\<forall>k<N. res_history r ! k =
              (get_llm_move api (take k (res_history r)),
               get_move strat (map fst (take k (res_history r))))"
    by (rule play_match_rounds(2) [OF b])
qed

theorem history_length_and_round_numbers_witness:
  "map round_number (round_history (fst (snd (submit_all
       \<lparr>total_rounds = 3,
        payoff_matrix = (\<lambda>k. if k = (Cooperate, Cooperate) then (3, 3)
                             else if k = (Cooperate, Defect) then (0, 5)
                             else if k = (Defect, Cooperate) then (5, 0) else (1, 1)),
        opponent_strategy = ''tit_for_tat'', opponent_initial = Cooperate\<rparr>
       PolicyTitForTat [''cooperate'', ''defect'', ''cooperate'']
       (\<lparr>current_round = 1, round_history = [], last_opponent_decision = None,
         completed = False\<rparr>, []))))) = [1, 2, 3]
   \<and> play_match (\<lambda>p. Inr ''defect'') ''TitForTat'' (int 2) =
     Inr \<lparr>res_scores = \<lparr>llm = 6, strategy = 1\<rparr>,
          res_history = [(''defect'', ''cooperate''), (''defect'', ''defect'')],
          res_strategy = ''TitForTat'', res_turns = 2\<rparr>
   \<and> length [(''defect'', ''cooperate''), (''defect'', ''defect'')] = (2::nat)"
  (is "map round_number (round_history (fst (snd ?S))) = _ \<and> play_match ?api ?name _ = Inr ?r \<and> _")
proof -
  let ?reg = "[''tit_for_tat'' \<mapsto> PolicyTitForTat]"
  let ?cfg = "\<lparr>total_rounds = 3,
        payoff_matrix = (\<lambda>k. if k = (Cooperate, Cooperate) then (3, 3)
                             else if k = (Cooperate, Defect) then (0, 5)
                             else if k = (Defect, Cooperate) then (5, 0) else (1, 1)),
        opponent_strategy = ''tit_for_tat'', opponent_initial = Cooperate\<rparr>"
  let ?init = "\<lparr>current_round = 1, round_history = [], last_opponent_decision = None,
               completed = False\<rparr>"
  let ?inputs = "[''cooperate'', ''defect'', ''cooperate'']"
  have st: "start ?reg ?cfg None = Inr (PolicyTitForTat, ?init)" by (simp add: start_def)
  have sub: "set ?inputs \<subseteq> {''cooperate'', ''defect''}" by simp
  have n: "int (length ?inputs) \<le> total_rounds ?cfg" by simp
  have run: "submit_all ?cfg PolicyTitForTat ?inputs (?init, []) =
      (fst ?S, fst (snd ?S), snd (snd ?S))"
    by (simp only: prod.collapse)
  have s: "STRATEGIES ?name = Some TitForTat" by (simp add: STRATEGIES_def)
  have pm: "play_match ?api ?name (int 2) = Inr ?r" by code_simp
  have up: "[1 .. int (length ?inputs)] = [1, 2, 3]" by (simp add: upto_rec1)
  note inst = history_length_and_round_numbers
      [where registry = ?reg and config = ?cfg and policy = PolicyTitForTat and ?st0.0 = ?init
         and inputs = ?inputs and ress = "fst ?S" and st = "fst (snd ?S)"
         and store = "snd (snd ?S)" and strategy_name = ?name and strat = TitForTat
         and api = ?api and N = 2 and r = ?r]
  from inst st sub n run
  have "map round_number (round_history (fst (snd ?S))) = [1 .. int (length ?inputs)]"
    by blast
  then have 1: "map round_number (round_history (fst (snd ?S))) = [1, 2, 3]"
    by (simp only: up)
  from inst s pm have "length (res_history ?r) = 2" by blast
  then have 2: "length [(''defect'', ''cooperate''), (''defect'', ''defect'')] = (2::nat)"
    by simp
  from 1 pm 2 show ?thesis by blast
qed

section \<open>TitForTat\<close>

text \<open>
  C2. \<^verbatim>\<open>TitForTat.get_move\<close> of \<^verbatim>\<open>pd_game.py\<close> returns \<^verbatim>\<open>'cooperate'\<close>, the default
  initial decision and the only one the class admits, on an empty history, and the last
  entry, the participant's preceding decision, on any other; in \<^verbatim>\<open>play_match\<close> the history
  it is given is the list of the participant's (the LLM's) moves only. The TitForTat policy
  of the specification, whose initial decision is configured, returns the configured
  \<open>opponent_initial\<close> on an empty history and the participant's preceding decision
  otherwise, and the round processor gives it the participant's decisions only.
\<close>

theorem tit_for_tat_get_move:
  "get_move TitForTat [] = ''cooperate''
   \<and> get_move TitForTat (hs @ [m]) = m
   \<and> snd (last (fst (play_turn api TitForTat (h, sc)))) = get_move TitForTat (map fst h)
   \<and> policy_move PolicyTitForTat initial [] = initial
   \<and> policy_move PolicyTitForTat initial (ds @ [d]) = d
   \<and> (process_round st config policy input = Inr (rec, st') \<longrightarrow>
        opponent_decision rec =
          policy_move policy (opponent_initial config)
            (map participant_decision (round_history st)))"
  by (auto simp: play_turn_def process_round_def Let_def split: if_splits option.splits)

theorem tit_for_tat_get_move_witness:
  "get_move TitForTat [''cooperate'', ''defect''] = ''defect''
   \<and> snd (last (fst (play_turn (\<lambda>p. Inr ''cooperate'') TitForTat
         ([(''defect'', ''cooperate'')], \<lparr>llm = 5, strategy = 0\<rparr>)))) = ''defect''
   \<and> policy_move PolicyTitForTat Defect [] = Defect
   \<and> policy_move PolicyTitForTat Defect [Defect, Cooperate] = Cooperate
   \<and> opponent_decision \<lparr>round_number = 1, participant_decision = Cooperate,
        opponent_decision = Defect, participant_score = 0, opponent_score = 5\<rparr> = Defect"
proof -
  let ?cfg = "\<lparr>total_rounds = 3,
        payoff_matrix = (\<lambda>k. if k = (Cooperate, Cooperate) then (3, 3)
                             else if k = (Cooperate, Defect) then (0, 5)
                             else if k = (Defect, Cooperate) then (5, 0) else (1, 1)),
        opponent_strategy = ''tit_for_tat'', opponent_initial = Defect\<rparr>"
  let ?init = "\<lparr>current_round = 1, round_history = [], last_opponent_decision = None,
               completed = False\<rparr>"
  let ?rec = "\<lparr>round_number = 1, participant_decision = Cooperate,
        opponent_decision = Defect, participant_score = 0, opponent_score = 5\<rparr>"
  let ?next = "\<lparr>current_round = 1, round_history = [?rec],
               last_opponent_decision = Some Defect, completed = False\<rparr>"
  have pr: "process_round ?init ?cfg PolicyTitForTat ''cooperate'' = Inr (?rec, ?next)"
    by (simp add: process_round_def parse_decision_def payoff_def Let_def)
  from tit_for_tat_get_move [of "[''cooperate'']" "''defect''" "\<lambda>p. Inr ''cooperate''"
      "[(''defect'', ''cooperate'')]" "\<lparr>llm = 5, strategy = 0\<rparr>" Defect "[Defect]" Cooperate
      ?init ?cfg PolicyTitForTat "''cooperate''" ?rec ?next] pr
  show ?thesis by simp
qed

end
